theory Spec2Isabelle
  imports Main
begin

section \<open>The program\<close>

text \<open>
  The repository is a small test runner for TypeScript. Its library has three
  files: \<open>fsntest.ts\<close> (the registry of tests and hooks, and \<open>describe\<close>, which
  runs them through a chain of \<open>rxjs\<close> operators and prints a summary),
  \<open>execute.ts\<close> (\<open>executeJustCallback\<close>, which turns a call of a callback into
  an observable of results, and \<open>printErrorDetails\<close>), and \<open>expect.ts\<close> (the
  matchers). The command line front end \<open>bin.js\<close> compiles a file and spawns it;
  it is not modelled.
\<close>

section \<open>JavaScript values\<close>

text \<open>
  The values a callback can throw, reject with, emit or hand to \<open>expect\<close>.
  Objects, native errors and functions are references: the first argument of
  \<open>JObject\<close>, \<open>JError\<close> and \<open>JFunction\<close> is the identity of the object, which is
  all that \<open>===\<close> compares. A native error carries its \<open>stack\<close> property
  (\<open>None\<close> when it is undefined), a function what a call of it with no argument
  does, an object its own enumerable properties. Numbers are the integral ones.
\<close>

datatype 'v call = Returns 'v | Raises 'v

datatype jsval =
    JUndefined
  | JNull
  | JBool bool
  | JNum int
  | JBigInt int
  | JStr string
  | JFunction nat "jsval call"
  | JError nat "string option"
  | JObject nat "(string \<times> jsval) list"

datatype jstype = TUndefined | TObject | TBoolean | TNumber | TBigint | TString | TFunction

fun typeof :: "jsval \<Rightarrow> jstype" where
  "typeof JUndefined = TUndefined"
| "typeof JNull = TObject"
| "typeof (JBool b) = TBoolean"
| "typeof (JNum n) = TNumber"
| "typeof (JBigInt n) = TBigint"
| "typeof (JStr s) = TString"
| "typeof (JFunction i c) = TFunction"
| "typeof (JError i st) = TObject"
| "typeof (JObject i ps) = TObject"

text \<open>
  \<open>isTruthy\<close> comes from the package \<open>@fsnjs/truthy\<close>, a dependency outside this
  repository; it is taken to be JavaScript's truthiness (\<open>!!val\<close>).
\<close>

fun isTruthy :: "jsval \<Rightarrow> bool" where
  "isTruthy JUndefined = False"
| "isTruthy JNull = False"
| "isTruthy (JBool b) = b"
| "isTruthy (JNum n) = (n \<noteq> 0)"
| "isTruthy (JBigInt n) = (n \<noteq> 0)"
| "isTruthy (JStr s) = (s \<noteq> [])"
| "isTruthy (JFunction i c) = True"
| "isTruthy (JError i st) = True"
| "isTruthy (JObject i ps) = True"

fun isNativeError :: "jsval \<Rightarrow> bool" where
  "isNativeError (JError i st) = True"
| "isNativeError v = False"

text \<open>
  The \<open>in\<close> operator: own properties and those of the prototype chain, which
  is \<open>Object.prototype\<close> for an object and \<open>Error.prototype\<close> before it for a
  native error. On a value that is not an object \<open>in\<close> raises; the source asks
  only after \<open>typeof val === 'object'\<close> and truthiness, so \<open>False\<close> stands there.
\<close>

definition Object_prototype_keys :: "string list" where
  "Object_prototype_keys =
     [''constructor'', ''hasOwnProperty'', ''isPrototypeOf'', ''propertyIsEnumerable'',
      ''toLocaleString'', ''toString'', ''valueOf'', ''__proto__'',
      ''__defineGetter__'', ''__defineSetter__'', ''__lookupGetter__'', ''__lookupSetter__'']"

definition Error_keys :: "string list" where
  "Error_keys = [''stack'', ''message'', ''name'']"

fun in_op :: "string \<Rightarrow> jsval \<Rightarrow> bool" where
  "in_op k (JObject i ps) = (k \<in> fst ` set ps \<or> k \<in> set Object_prototype_keys)"
| "in_op k (JError i st) = (k \<in> set Error_keys \<or> k \<in> set Object_prototype_keys)"
| "in_op k v = False"

text \<open>\<open>===\<close>: primitives by value, references by identity.\<close>

fun strict_eq :: "jsval \<Rightarrow> jsval \<Rightarrow> bool" where
  "strict_eq (JFunction i c) (JFunction j d) = (i = j)"
| "strict_eq (JError i s) (JError j t) = (i = j)"
| "strict_eq (JObject i ps) (JObject j qs) = (i = j)"
| "strict_eq (JFunction i c) w = False"
| "strict_eq (JError i s) w = False"
| "strict_eq (JObject i ps) w = False"
| "strict_eq v w = (v = w)"

subsection \<open>When \<open>JSON.stringify\<close> raises\<close>

text \<open>
  \<open>JSON.stringify(v, null, 4)\<close> walks the own properties of an object. It raises
  a TypeError at a BigInt, it calls a callable \<open>toJSON\<close> property of an object
  and goes on with what the call returns (or raises what the call raises), and it
  leaves out function and undefined properties. \<open>ser_property\<close> is the
  specification's SerializeJSONProperty with the \<open>toJSON\<close> step, \<open>ser_value\<close>
  the rest of it, \<open>ser_props\<close> the loop over the properties; each is \<open>True\<close>
  when the walk raises.
\<close>

fun toJSON_of :: "(string \<times> jsval) list \<Rightarrow> jsval call option" where
  "toJSON_of [] = None"
| "toJSON_of ((k, v) # ps) =
     (if k = ''toJSON'' then (case v of JFunction i c \<Rightarrow> Some c | _ \<Rightarrow> None)
      else toJSON_of ps)"

lemma toJSON_of_size:
  "toJSON_of ps = Some c \<Longrightarrow> size_call size c < Suc (size_list (size_prod (\<lambda>_. 0) size) ps)"
  by (induction ps) (auto split: if_splits jsval.splits)

function (sequential) ser_value :: "jsval \<Rightarrow> bool"
  and ser_property :: "jsval \<Rightarrow> bool"
  and ser_props :: "(string \<times> jsval) list \<Rightarrow> bool" where
  "ser_value (JBigInt n) = True"
| "ser_value (JObject i ps) = ser_props ps"
| "ser_value v = False"
| "ser_property (JObject i ps) =
     (case toJSON_of ps of
        Some (Raises e) \<Rightarrow> True
      | Some (Returns r) \<Rightarrow> ser_value r
      | None \<Rightarrow> ser_props ps)"
| "ser_property v = ser_value v"
| "ser_props [] = False"
| "ser_props ((k, v) # ps) = (ser_property v \<or> ser_props ps)"
  by pat_completeness auto

termination
  apply (relation "measure (\<lambda>x. case x of
       Inl v \<Rightarrow> 2 * size v
     | Inr (Inl v) \<Rightarrow> 2 * size v + 1
     | Inr (Inr ps) \<Rightarrow> 2 * size_list (size_prod (\<lambda>_. 0) size) ps + 1)")
  apply simp_all
  apply (auto dest!: toJSON_of_size)
  done

definition JSON_stringify_raises :: "jsval \<Rightarrow> bool" where
  "JSON_stringify_raises v = ser_property v"

section \<open>What the code takes from outside\<close>

text \<open>
  The packages and the clock the source calls are not part of the repository;
  they are the fields of \<open>ext\<close>, and every definition below takes one.
  \<^item> \<open>red\<close>, \<open>green\<close>, \<open>gray\<close>, \<open>blue\<close>, \<open>bold\<close>: the styles of \<open>chalk\<close>;
  \<^item> \<open>json_text v\<close>: the text \<open>JSON.stringify(v, null, 4)\<close> returns when it
    returns (the empty text for \<open>undefined\<close>, as \<open>join\<close> prints it);
  \<^item> \<open>to_string v\<close>: the text of \<open>v\<close> in a template literal or a \<open>+\<close> with a string;
  \<^item> \<open>diffChars s v\<close>: the changes the package \<open>diff\<close> returns, \<open>None\<close> when it raises;
  \<^item> \<open>elapsed n\<close>: for the test \<open>n\<close>, the number \<open>_timing\<close> the two readings of the
    clock give, as the source looks at it: \<open>None\<close> when it is falsy (zero), else
    its text \<open>`${_timing}`\<close>. The double arithmetic behind it is not modelled.
\<close>

record change =
  added :: bool
  removed :: bool
  "value" :: string

record ext =
  red :: "string \<Rightarrow> string"
  green :: "string \<Rightarrow> string"
  gray :: "string \<Rightarrow> string"
  blue :: "string \<Rightarrow> string"
  bold :: "string \<Rightarrow> string"
  json_text :: "jsval \<Rightarrow> string"
  to_string :: "jsval \<Rightarrow> string"
  diffChars :: "string \<Rightarrow> jsval \<Rightarrow> change list option"
  elapsed :: "string \<Rightarrow> string option"

text \<open>Characters the source writes that a string literal here cannot hold.\<close>

definition dq :: char where
  "dq = CHR 0x22"

definition nl :: char where
  "nl = CHR 0x0A"

text \<open>The check mark U+2714 and the cross U+2716, in UTF-8.\<close>

definition check_mark :: string where
  "check_mark = [CHR 0xE2, CHR 0x9C, CHR 0x94]"

definition cross_mark :: string where
  "cross_mark = [CHR 0xE2, CHR 0x9C, CHR 0x96]"

text \<open>\<open>Array.prototype.join\<close> with a separator.\<close>

fun join :: "string \<Rightarrow> string list \<Rightarrow> string" where
  "join sep [] = []"
| "join sep [s] = s"
| "join sep (s # t # ss) = s @ sep @ join sep (t # ss)"

section \<open>\<open>printErrorDetails\<close>\<close>

definition failed_line :: "string \<Rightarrow> string" where
  "failed_line n = [dq] @ n @ [dq] @ '' failed.''"

definition stack_of :: "jsval \<Rightarrow> string option" where
  "stack_of v = (case v of JError i st \<Rightarrow> st | _ \<Rightarrow> None)"

definition string_of :: "jsval \<Rightarrow> string" where
  "string_of v = (case v of JStr s \<Rightarrow> s | _ \<Rightarrow> [])"

text \<open>
  The branches in the order of the source. \<open>None\<close> is the one way the function
  does not return: \<open>JSON.stringify\<close> raises.
\<close>

definition printErrorDetails :: "ext \<Rightarrow> string \<Rightarrow> jsval \<Rightarrow> string option" where
  "printErrorDetails x n error =
     (let err = [red x (failed_line n)] in
      if \<not> isTruthy error then
        Some (join [nl] (err @ [red x ''An unknown error occured.'']))
      else if isNativeError error then
        (case stack_of error of
           None \<Rightarrow> Some (join [nl] err)
         | Some stack \<Rightarrow>
             if stack \<noteq> [] then Some (join [nl] (err @ [gray x ([nl] @ ''Details:'' @ [nl]), stack]))
             else Some (join [nl] err))
      else if typeof error = TString then
        Some (join [nl] (err @ [red x (string_of error)]))
      else if typeof error = TObject then
        (if JSON_stringify_raises error then None
         else Some (join [nl] (err @ [gray x ''Could not parse error:'', json_text x error])))
      else Some (join [nl] (err @ [red x ''An unknown error occured.''])))"

section \<open>Observables\<close>

text \<open>
  An observable of \<open>rxjs\<close> is what a subscriber receives from it: the values in
  the order they come, and how the sequence ends: it completes, it raises an
  error, or it stays silent (no further notification ever comes: a sequence that
  does not complete, a promise that does not settle). Time is left out: a value is
  handled to the end of the chain before the next one comes, which is what happens
  when every callback finishes synchronously.
\<close>

datatype 'e ending = Completes | Errors 'e | Silent

datatype ('a, 'e) obs = Obs (emitted: "'a list") (ending: "'e ending")

definition of_rx :: "'a list \<Rightarrow> ('a, 'e) obs" where
  "of_rx vs = Obs vs Completes"

definition map_rx :: "('a \<Rightarrow> 'b) \<Rightarrow> ('a, 'e) obs \<Rightarrow> ('b, 'e) obs" where
  "map_rx f ob = Obs (map f (emitted ob)) (ending ob)"

text \<open>
  \<open>catchError\<close>: at an error the selector gives the sequence to go on with; a
  selector that raises (\<open>Inl\<close>) makes that the error of the result.
\<close>

definition catchError :: "('e \<Rightarrow> 'f + ('a, 'f) obs) \<Rightarrow> ('a, 'e) obs \<Rightarrow> ('a, 'f) obs" where
  "catchError selector ob =
     (case ending ob of
        Completes \<Rightarrow> Obs (emitted ob) Completes
      | Silent \<Rightarrow> Obs (emitted ob) Silent
      | Errors err \<Rightarrow>
          (case selector err of
             Inl thrown \<Rightarrow> Obs (emitted ob) (Errors thrown)
           | Inr handled \<Rightarrow> Obs (emitted ob @ emitted handled) (ending handled)))"

text \<open>\<open>scan\<close> with a seed emits every accumulation but the seed.\<close>

fun scan_list :: "('b \<Rightarrow> 'a \<Rightarrow> 'b) \<Rightarrow> 'b \<Rightarrow> 'a list \<Rightarrow> 'b list" where
  "scan_list f acc [] = []"
| "scan_list f acc (v # vs) = f acc v # scan_list f (f acc v) vs"

definition scan :: "('b \<Rightarrow> 'a \<Rightarrow> 'b) \<Rightarrow> 'b \<Rightarrow> ('a, 'e) obs \<Rightarrow> ('b, 'e) obs" where
  "scan f seed ob = Obs (scan_list f seed (emitted ob)) (ending ob)"

text \<open>
  What can end a run with an error: \<open>printErrorDetails\<close> raising while it renders
  (\<open>RenderError\<close>), the \<open>EmptyError\<close> of \<open>last()\<close>, which is called without a
  default value and so raises when its source completes without a value, and the
  TypeError of an assignment to a property that cannot be written
  (\<open>AssignError\<close>), which \<open>it\<close> can raise.
\<close>

datatype failure = RenderError | EmptyError | AssignError

definition last_rx :: "('a, failure) obs \<Rightarrow> ('a, failure) obs" where
  "last_rx ob =
     (case ending ob of
        Completes \<Rightarrow>
          (if emitted ob = [] then Obs [] (Errors EmptyError)
           else Obs [last (emitted ob)] Completes)
      | Errors e \<Rightarrow> Obs [] (Errors e)
      | Silent \<Rightarrow> Obs [] Silent)"

section \<open>\<open>executeJustCallback\<close>\<close>

text \<open>
  A \<open>JustCallback\<close> is modelled by what a call of it does: it throws, it returns a
  native promise (\<open>isPromise\<close>) that resolves, rejects or stays pending, it returns
  an observable (\<open>isObservable\<close>), or it returns anything else. A callback does
  the same at every call.
\<close>

datatype settled = Resolves jsval | Rejects jsval | Pending

datatype callback =
    Throw jsval
  | ReturnPromise settled
  | ReturnObservable "(jsval, jsval) obs"
  | ReturnPlain jsval

record ExecResult =
  name :: string
  passed :: string
  errorStr :: "string option"

text \<open>
  The returned observable carries the objects \<open>pass\<close> and \<open>fail\<close> the function
  makes (\<open>Made\<close>) and the values of the callback's observable that it lets through
  (\<open>Through\<close>). \<open>fail\<close> is one mutable object in the source; a \<open>Made\<close> value is
  what it holds at the moment it is emitted.
\<close>

datatype result = Made ExecResult | Through jsval

definition isExecResult :: "jsval \<Rightarrow> bool" where
  "isExecResult val =
     (isTruthy val \<and> typeof val = TObject \<and> in_op ''name'' val \<and> in_op ''passed'' val)"

fun isExecResult_of :: "result \<Rightarrow> bool" where
  "isExecResult_of (Made r) = True"
| "isExecResult_of (Through v) = isExecResult v"

definition pass_result :: "ext \<Rightarrow> string \<Rightarrow> ExecResult" where
  "pass_result x n = \<lparr>name = n, passed = green x check_mark, errorStr = None\<rparr>"

definition fail_result :: "ext \<Rightarrow> string \<Rightarrow> ExecResult" where
  "fail_result x n = \<lparr>name = n, passed = red x cross_mark, errorStr = None\<rparr>"

text \<open>
  \<open>Inl\<close>: the call itself raises, which happens when \<open>printErrorDetails\<close> raises
  inside the \<open>catch\<close> block. In the promise branch the same happens inside the
  rejection handler, after which the subscriber is never called.
\<close>

definition executeJustCallback ::
  "ext \<Rightarrow> string \<Rightarrow> callback option \<Rightarrow> failure + (result, failure) obs" where
  "executeJustCallback x n callback =
     (let pass = pass_result x n; fail = fail_result x n in
      case callback of
        None \<Rightarrow> Inr (of_rx [Made (pass_result x n)])
      | Some (Throw e) \<Rightarrow>
          (case printErrorDetails x n e of
             None \<Rightarrow> Inl RenderError
           | Some d \<Rightarrow> Inr (of_rx [Made (fail\<lparr>errorStr := Some d\<rparr>)]))
      | Some (ReturnPromise p) \<Rightarrow>
          Inr (case p of
                 Resolves v \<Rightarrow> Obs [Made pass] Completes
               | Rejects reason \<Rightarrow>
                   (case printErrorDetails x n reason of
                      None \<Rightarrow> Obs [] Silent
                    | Some d \<Rightarrow> Obs [Made (fail\<lparr>errorStr := Some d\<rparr>)] Completes)
               | Pending \<Rightarrow> Obs [] Silent)
      | Some (ReturnObservable ob) \<Rightarrow>
          Inr (map_rx (\<lambda>v. if isExecResult_of v then v else Made fail)
                (catchError
                   (\<lambda>error. case printErrorDetails x n error of
                               None \<Rightarrow> Inl RenderError
                             | Some d \<Rightarrow> Inr (of_rx [Made (fail\<lparr>errorStr := Some d\<rparr>)]))
                   (map_rx Through ob)))
      | Some (ReturnPlain v) \<Rightarrow> Inr (of_rx [Made pass]))"

text \<open>What the \<open>map\<close> of the observable branch does to a value of the callback.\<close>

definition coerce :: "ext \<Rightarrow> string \<Rightarrow> jsval \<Rightarrow> result" where
  "coerce x n v = (if isExecResult v then Through v else Made (fail_result x n))"

section \<open>The registry\<close>

datatype hook = BeforeAll | BeforeEach | AfterAll | AfterEach

record registry =
  beforeAllFn :: "callback option"
  beforeEachFn :: "callback option"
  afterAllFn :: "callback option"
  afterEachFn :: "callback option"
  tests :: "(string \<times> callback) list"
  tests_proto :: "callback option"

text \<open>
  \<open>tests\<close> is an ordinary object used as a dictionary. The list \<open>tests\<close> holds
  its own properties in the order they were created; \<open>tests_proto\<close> is its
  prototype when that is a test function, and \<open>None\<close> while it is
  \<open>Object.prototype\<close>.

  The assignment \<open>tests[k] = v\<close> of \<open>it\<close>, in the strict code of a module:
  \<^item> for \<open>k = '__proto__'\<close> it calls the setter \<open>tests\<close> inherits from
    \<open>Object.prototype\<close>, which makes the function \<open>v\<close> the prototype of \<open>tests\<close>
    and makes no own property;
  \<^item> for an own property \<open>k\<close> it replaces the value in place;
  \<^item> for a new \<open>k\<close> it looks \<open>k\<close> up in the prototype chain first. Once a function
    is the prototype, \<open>name\<close> and \<open>length\<close> are found there as properties that are
    not writable, and \<open>caller\<close> and \<open>arguments\<close> as properties whose setter
    raises (or that are not writable): the assignment raises a TypeError. Every
    other inherited property is writable or absent, and \<open>k\<close> is appended as a
    new own property.
\<close>

fun assign :: "string \<Rightarrow> 'v \<Rightarrow> (string \<times> 'v) list \<Rightarrow> (string \<times> 'v) list" where
  "assign k v [] = [(k, v)]"
| "assign k v ((k', v') # kvs) =
     (if k = k' then (k, v) # kvs else (k', v') # assign k v kvs)"

definition Function_readonly_keys :: "string list" where
  "Function_readonly_keys = [''name'', ''length'', ''caller'', ''arguments'']"

definition it :: "string \<Rightarrow> callback \<Rightarrow> registry \<Rightarrow> failure + registry" where
  "it testDescription testExec r =
     (if testDescription = ''__proto__'' then Inr (r\<lparr>tests_proto := Some testExec\<rparr>)
      else if tests_proto r \<noteq> None \<and> testDescription \<in> set Function_readonly_keys
              \<and> testDescription \<notin> fst ` set (tests r)
      then Inl AssignError
      else Inr (r\<lparr>tests := assign testDescription testExec (tests r)\<rparr>))"

fun set_hook :: "hook \<Rightarrow> callback \<Rightarrow> registry \<Rightarrow> registry" where
  "set_hook BeforeAll fn r = r\<lparr>beforeAllFn := Some fn\<rparr>"
| "set_hook BeforeEach fn r = r\<lparr>beforeEachFn := Some fn\<rparr>"
| "set_hook AfterAll fn r = r\<lparr>afterAllFn := Some fn\<rparr>"
| "set_hook AfterEach fn r = r\<lparr>afterEachFn := Some fn\<rparr>"

text \<open>
  \<open>testDef\<close> is modelled by the registrations it makes, in order: calls of \<open>it\<close>
  and of \<open>beforeAll\<close>, \<open>beforeEach\<close>, \<open>afterAll\<close>, \<open>afterEach\<close>. It ends at the
  first call that raises, with the registry as the calls before left it.
\<close>

datatype registration = It string callback | Hook hook callback

fun register :: "registry \<Rightarrow> registration \<Rightarrow> failure + registry" where
  "register r (It n fn) = it n fn r"
| "register r (Hook h fn) = Inr (set_hook h fn r)"

fun register_all :: "registry \<Rightarrow> registration list \<Rightarrow> failure + registry" where
  "register_all r [] = Inr r"
| "register_all r (d # ds) =
     (case register r d of Inl e \<Rightarrow> Inl e | Inr r' \<Rightarrow> register_all r' ds)"

definition empty_registry :: registry where
  "empty_registry =
     \<lparr>beforeAllFn = None, beforeEachFn = None, afterAllFn = None, afterEachFn = None,
      tests = [], tests_proto = None\<rparr>"

text \<open>
  \<open>Object.entries\<close> lists the own properties whose key is an array index (the
  canonical decimal text of an integer below \<open>2^32 - 1\<close>) first, in ascending
  numeric order, and then the others in the order they were created.
\<close>

definition digit_value :: "char \<Rightarrow> nat" where
  "digit_value c = of_char c - 48"

definition is_digit :: "char \<Rightarrow> bool" where
  "is_digit c = (48 \<le> (of_char c :: nat) \<and> (of_char c :: nat) \<le> 57)"

definition index_value :: "string \<Rightarrow> nat" where
  "index_value s = foldl (\<lambda>n c. 10 * n + digit_value c) 0 s"

definition is_array_index :: "string \<Rightarrow> bool" where
  "is_array_index s =
     (s \<noteq> [] \<and> list_all is_digit s \<and> (s = ''0'' \<or> hd s \<noteq> CHR ''0'')
      \<and> index_value s < 4294967295)"

definition Object_entries :: "(string \<times> 'v) list \<Rightarrow> (string \<times> 'v) list" where
  "Object_entries kvs =
     sort_key (\<lambda>kv. index_value (fst kv)) (filter (\<lambda>kv. is_array_index (fst kv)) kvs)
     @ filter (\<lambda>kv. \<not> is_array_index (fst kv)) kvs"

section \<open>\<open>describe\<close>\<close>

subsection \<open>The time of a test\<close>

text \<open>
  \<open>`${_timing}`.split('.')\<close>, its first two parts, \<open>'000'\<close> for a missing
  second part, and \<open>slice(0, 3)\<close>; \<open>'0.000'\<close> for a falsy \<open>_timing\<close>.
\<close>

definition format_time :: "string option \<Rightarrow> string" where
  "format_time t =
     (case t of
        None \<Rightarrow> ''0.000''
      | Some s \<Rightarrow>
          (let whole = takeWhile (\<lambda>c. c \<noteq> CHR ''.'') s;
               rest = dropWhile (\<lambda>c. c \<noteq> CHR ''.'') s;
               decimal = (if rest = [] then ''000''
                          else takeWhile (\<lambda>c. c \<noteq> CHR ''.'') (tl rest))
           in whole @ ''.'' @ take 3 decimal))"

subsection \<open>Subscriptions that call callbacks\<close>

text \<open>
  A run is followed by the list of the calls of callbacks it makes. A
  subscription takes the calls made so far and gives what the subscriber receives
  and the calls made then. \<open>exec\<close> is a call of \<open>executeJustCallback\<close> from
  \<open>describe\<close>: the callback is called when there is one, and a raise of
  \<open>executeJustCallback\<close> is the error of the sequence (\<open>concatMap\<close> turns a raise
  of its projection into one; the one call outside a projection, for
  \<open>beforeAll\<close>, ends \<open>describe\<close> with it).

  The list is the calls, in their order, of a run in which every callback
  finishes synchronously. A callback that returns a promise finishes later, and
  the source's first \<open>concatMap\<close> does not wait for the second: \<open>beforeEach\<close>
  for the next test is called while the promise of a test is pending. So with
  promises a run that completes makes the same calls as the list, in another
  order, and a run that stays silent or ends in an error can have called
  \<open>beforeEach\<close> more often than the list shows. The general lemmas below are
  about runs that complete, and count calls without ordering them; the
  statements that give the list of the calls of one suite are at suites without
  a promise.
\<close>

datatype event = HookCalled hook | TestCalled string

type_synonym 'a sub = "event list \<Rightarrow> ('a, failure) obs \<times> event list"

definition exec :: "ext \<Rightarrow> event \<Rightarrow> string \<Rightarrow> callback option \<Rightarrow> result sub" where
  "exec x ev n callback calls =
     (let calls' = (if callback = None then calls else calls @ [ev]) in
      case executeJustCallback x n callback of
        Inl e \<Rightarrow> (Obs [] (Errors e), calls')
      | Inr ob \<Rightarrow> (ob, calls'))"

definition of_sub :: "'a list \<Rightarrow> 'a sub" where
  "of_sub vs calls = (of_rx vs, calls)"

definition map_sub :: "('a \<Rightarrow> 'b) \<Rightarrow> 'a sub \<Rightarrow> 'b sub" where
  "map_sub f src calls = (case src calls of (ob, calls') \<Rightarrow> (map_rx f ob, calls'))"

text \<open>
  \<open>concatMap\<close>: the inner sequences one after the other; the next value of the
  source is projected when the inner sequence before it has completed, and an
  inner sequence that raises or stays silent ends the result so.
\<close>

fun concatMap_from :: "('a \<Rightarrow> 'b sub) \<Rightarrow> 'a list \<Rightarrow> failure ending \<Rightarrow> 'b sub" where
  "concatMap_from project [] e calls = (Obs [] e, calls)"
| "concatMap_from project (v # vs) e calls =
     (case project v calls of
        (inner, calls1) \<Rightarrow>
          (if ending inner = Completes then
             (case concatMap_from project vs e calls1 of
                (rest, calls2) \<Rightarrow> (Obs (emitted inner @ emitted rest) (ending rest), calls2))
           else (inner, calls1)))"

definition concatMap :: "('a \<Rightarrow> 'b sub) \<Rightarrow> 'a sub \<Rightarrow> 'b sub" where
  "concatMap project src calls =
     (case src calls of (ob, calls1) \<Rightarrow> concatMap_from project (emitted ob) (ending ob) calls1)"

subsection \<open>The run\<close>

record TimedResult =
  testResult :: result
  timing :: string

text \<open>
  The projection of the second \<open>concatMap\<close> of \<open>executeTests\<close>: run the test, and
  for every result it gives compute the time, run \<open>afterEach\<close> and give the
  result with its time. The status line printed in between is left out.
\<close>

definition runTest :: "ext \<Rightarrow> registry \<Rightarrow> string \<times> callback \<Rightarrow> TimedResult sub" where
  "runTest x r test =
     (case test of
        (n, testFn) \<Rightarrow>
          concatMap
            (\<lambda>res. map_sub (\<lambda>_. \<lparr>testResult = res, timing = format_time (elapsed x n)\<rparr>)
                     (exec x (HookCalled AfterEach) ''afterEach'' (afterEachFn r)))
            (exec x (TestCalled n) n (Some testFn)))"

text \<open>
  \<open>executeTests\<close>. The source chains two \<open>concatMap\<close>s behind \<open>of(...)\<close>. When
  the callbacks finish synchronously, \<open>of\<close> hands a test to the whole chain
  before it takes the next one, so the second projection runs on each value as
  the first one gives it, which is the second \<open>concatMap\<close> written inside the
  first. (With promises the rows and the number of calls of a run that completes
  are the same; see the note on the list of calls above.)
\<close>

definition executeTests :: "ext \<Rightarrow> registry \<Rightarrow> TimedResult list sub" where
  "executeTests x r calls =
     (case concatMap
             (\<lambda>test. concatMap (runTest x r)
                        (map_sub (\<lambda>_. test)
                           (exec x (HookCalled BeforeEach) ''beforeEach'' (beforeEachFn r))))
             (of_sub (Object_entries (tests r))) calls of
        (ob, calls') \<Rightarrow> (last_rx (scan (\<lambda>acc res. acc @ [res]) [] ob), calls'))"

text \<open>
  What a run leaves: the summaries the subscriber printed, how the chain ended
  (an error is not handled by anyone), and the calls of callbacks. In
  \<open>run_registry\<close> the two \<open>concatMap\<close>s behind the call for \<open>beforeAll\<close> are
  written one inside the other, as in \<open>executeTests\<close>.
\<close>

record run =
  printed :: "TimedResult list list"
  outcome :: "failure ending"
  called :: "event list"

definition run_registry :: "ext \<Rightarrow> registry \<Rightarrow> run" where
  "run_registry x r =
     (case concatMap
             (\<lambda>_. concatMap
                     (\<lambda>summary. map_sub (\<lambda>_. summary)
                                  (exec x (HookCalled AfterAll) ''afterAll'' (afterAllFn r)))
                     (executeTests x r))
             (exec x (HookCalled BeforeAll) ''beforeAll'' (beforeAllFn r)) [] of
        (ob, calls) \<Rightarrow> \<lparr>printed = emitted ob, outcome = ending ob, called = calls\<rparr>)"

text \<open>
  \<open>describe\<close> on the registry the module holds when it is called, with the
  registrations \<open>testDef\<close> makes. When \<open>testDef\<close> raises, \<open>describe\<close> ends with
  that error before it calls anything.
\<close>

definition describe :: "ext \<Rightarrow> registry \<Rightarrow> registration list \<Rightarrow> run" where
  "describe x r testDef =
     (case register_all r testDef of
        Inl e \<Rightarrow> \<lparr>printed = [], outcome = Errors e, called = []\<rparr>
      | Inr r' \<Rightarrow> run_registry x r')"

section \<open>\<open>expect\<close>\<close>

text \<open>
  What a matcher throws: an \<open>Error\<close> it makes with a message, a value the
  function under test threw, or whatever \<open>diffChars\<close> raised.
\<close>

datatype thrown = NewError string | Thrown jsval | DiffRaised

definition typeof_text :: "jstype \<Rightarrow> string" where
  "typeof_text t =
     (case t of
        TUndefined \<Rightarrow> ''undefined'' | TObject \<Rightarrow> ''object'' | TBoolean \<Rightarrow> ''boolean''
      | TNumber \<Rightarrow> ''number'' | TBigint \<Rightarrow> ''bigint'' | TString \<Rightarrow> ''string''
      | TFunction \<Rightarrow> ''function'')"

text \<open>A call \<open>f()\<close>; the call of a value that is no function raises a TypeError.\<close>

definition apply_fn :: "jsval \<Rightarrow> thrown + jsval" where
  "apply_fn f =
     (case f of
        JFunction i (Returns v) \<Rightarrow> Inr v
      | JFunction i (Raises e) \<Rightarrow> Inl (Thrown e)
      | _ \<Rightarrow> Inl (NewError ''TypeError: expected is not a function''))"

definition try_catch :: "('e + 'a) \<Rightarrow> ('e \<Rightarrow> 'f + 'a) \<Rightarrow> 'f + 'a" where
  "try_catch body handler = (case body of Inl e \<Rightarrow> handler e | Inr v \<Rightarrow> Inr v)"

definition toThrow :: "ext \<Rightarrow> jsval \<Rightarrow> thrown + bool" where
  "toThrow x expected =
     (if typeof expected \<noteq> TFunction then
        Inl (NewError (''Expected a function, received ''
                        @ blue x (typeof_text (typeof expected)) @ ''.''))
      else
        try_catch
          (case apply_fn expected of
             Inl e \<Rightarrow> Inl e
           | Inr v \<Rightarrow>
               Inl (NewError (''Expected function '' @ blue x (to_string x expected)
                              @ '' to throw an error, but it did not.'')))
          (\<lambda>e. Inr True))"

definition show_change :: "ext \<Rightarrow> change \<Rightarrow> string" where
  "show_change x c =
     (if added c then green x (if value c = '' '' then ''_'' else value c)
      else if removed c then red x (if value c = '' '' then ''_'' else value c)
      else value c)"

definition toEqual :: "ext \<Rightarrow> jsval \<Rightarrow> jsval \<Rightarrow> thrown + bool" where
  "toEqual x expected received =
     (if strict_eq expected received then Inr True
      else
        (case (if typeof expected = TString then
                 (case diffChars x (string_of expected) received of
                    None \<Rightarrow> Inl DiffRaised
                  | Some changes \<Rightarrow>
                      Inr ([nl, nl] @ gray x ''Diff:'' @ [nl]
                           @ concat (map (show_change x) changes) @ [nl, nl]))
               else Inr []) of
           Inl e \<Rightarrow> Inl e
         | Inr diffed \<Rightarrow>
             Inl (NewError
                   (''Expected value '' @ bold x ''does not equal'' @ '' received value.''
                    @ (if typeof expected = TNumber then
                         [nl, nl] @ gray x ''Details:'' @ [nl, nl]
                         @ red x (to_string x expected @ '' !== '' @ to_string x received)
                         @ [nl]
                       else diffed)))))"

section \<open>Callbacks that give one result\<close>

text \<open>
  An error is renderable when \<open>printErrorDetails\<close> returns on it, that is when
  it does not reach a \<open>JSON.stringify\<close> that raises.
\<close>

definition renderable :: "jsval \<Rightarrow> bool" where
  "renderable e = (case e of JObject i ps \<Rightarrow> \<not> JSON_stringify_raises e | _ \<Rightarrow> True)"

text \<open>
  The callbacks whose \<open>executeJustCallback\<close> gives one result and completes: a
  plain return, a throw or a rejection with a renderable value, a promise that
  resolves, an observable that emits one value and completes or that raises a
  renderable error before any value.
\<close>

fun settles_once :: "callback \<Rightarrow> bool" where
  "settles_once (Throw e) = renderable e"
| "settles_once (ReturnPlain v) = True"
| "settles_once (ReturnPromise (Resolves v)) = True"
| "settles_once (ReturnPromise (Rejects reason)) = renderable reason"
| "settles_once (ReturnPromise Pending) = False"
| "settles_once (ReturnObservable ob) =
     (case ending ob of
        Completes \<Rightarrow> length (emitted ob) = 1
      | Errors e \<Rightarrow> emitted ob = [] \<and> renderable e
      | Silent \<Rightarrow> False)"

definition hook_settles :: "callback option \<Rightarrow> bool" where
  "hook_settles fn = (case fn of None \<Rightarrow> True | Some cb \<Rightarrow> settles_once cb)"

definition well_behaved :: "registry \<Rightarrow> bool" where
  "well_behaved r =
     (hook_settles (beforeAllFn r) \<and> hook_settles (beforeEachFn r)
      \<and> hook_settles (afterAllFn r) \<and> hook_settles (afterEachFn r)
      \<and> list_all (\<lambda>test. settles_once (snd test)) (tests r))"

text \<open>The one result of a call of \<open>executeJustCallback\<close>, when it gives just one.\<close>

definition sole :: "ext \<Rightarrow> string \<Rightarrow> callback option \<Rightarrow> result option" where
  "sole x n callback =
     (case executeJustCallback x n callback of
        Inl e \<Rightarrow> None
      | Inr ob \<Rightarrow>
          (case emitted ob of
             [res] \<Rightarrow> (if ending ob = Completes then Some res else None)
           | _ \<Rightarrow> None))"

text \<open>The calls one test adds to a run in which every callback gives one result.\<close>

definition hook_call :: "hook \<Rightarrow> callback option \<Rightarrow> event list" where
  "hook_call h fn = (if fn = None then [] else [HookCalled h])"

definition test_calls :: "registry \<Rightarrow> string \<times> callback \<Rightarrow> event list" where
  "test_calls r test =
     hook_call BeforeEach (beforeEachFn r) @ [TestCalled (fst test)]
     @ hook_call AfterEach (afterEachFn r)"

text \<open>
  The row of a test that gives one result (\<open>sole\<close> is \<open>Some\<close> wherever
  \<open>row_of\<close> is used below).
\<close>

definition row_of :: "ext \<Rightarrow> string \<times> callback \<Rightarrow> TimedResult" where
  "row_of x test =
     \<lparr>testResult = the (sole x (fst test) (Some (snd test))),
      timing = format_time (elapsed x (fst test))\<rparr>"

section \<open>An environment for the examples\<close>

text \<open>
  \<open>chalk\<close> without colour support gives its argument back. The other fields
  are what the packages give on the values the examples use: \<open>{}\<close> for an
  object without properties to serialise, \<open>[object Object]\<close> for the text of an
  object, a \<open>diffChars\<close> that raises (in the examples the value it receives
  is no string), and a test whose \<open>_timing\<close> reads \<open>0.012\<close>.
\<close>

definition sample_ext :: ext where
  "sample_ext =
     \<lparr>red = (\<lambda>s. s), green = (\<lambda>s. s), gray = (\<lambda>s. s), blue = (\<lambda>s. s), bold = (\<lambda>s. s),
      json_text = (\<lambda>v. ''{}''), to_string = (\<lambda>v. ''[object Object]''),
      diffChars = (\<lambda>s v. None), elapsed = (\<lambda>n. Some ''0.012'')\<rparr>"

text \<open>
  A suite with a test of each shape: a plain return, a throw, a promise and an
  observable, with a \<open>beforeEach\<close> and an \<open>afterAll\<close> hook.
\<close>

definition sample_suite :: "registration list" where
  "sample_suite =
     [Hook BeforeEach (ReturnPlain JUndefined),
      It ''a'' (ReturnPlain JUndefined),
      It ''b'' (Throw (JStr ''boom'')),
      It ''c'' (ReturnPromise (Resolves JUndefined)),
      It ''d'' (ReturnObservable (Obs [JNum 1] Completes)),
      Hook AfterAll (ReturnPromise (Rejects JNull))]"

text \<open>The registry the sample suite leaves when it starts from the empty one.\<close>

definition sample_registry :: registry where
  "sample_registry =
     \<lparr>beforeAllFn = None, beforeEachFn = Some (ReturnPlain JUndefined),
      afterAllFn = Some (ReturnPromise (Rejects JNull)), afterEachFn = None,
      tests = [(''a'', ReturnPlain JUndefined), (''b'', Throw (JStr ''boom'')),
               (''c'', ReturnPromise (Resolves JUndefined)),
               (''d'', ReturnObservable (Obs [JNum 1] Completes))],
      tests_proto = None\<rparr>"

section \<open>Lemmas about \<open>executeJustCallback\<close>\<close>

lemma renderable_prints: "renderable e \<Longrightarrow> \<exists>d. printErrorDetails x n e = Some d"
  by (cases e) (auto simp: renderable_def printErrorDetails_def Let_def stack_of_def split: option.splits)

lemma prints_renderable: "printErrorDetails x n e = Some d \<Longrightarrow> renderable e"
  by (cases e) (auto simp: renderable_def printErrorDetails_def Let_def stack_of_def split: option.splits if_splits)

text \<open>The function, branch by branch.\<close>

lemma ejc_None: "executeJustCallback x n None = Inr (Obs [Made (pass_result x n)] Completes)"
  by (simp add: executeJustCallback_def of_rx_def)

lemma ejc_Plain: "executeJustCallback x n (Some (ReturnPlain v)) = Inr (Obs [Made (pass_result x n)] Completes)"
  by (simp add: executeJustCallback_def of_rx_def)

lemma ejc_Throw:
  "executeJustCallback x n (Some (Throw e)) =
     (case printErrorDetails x n e of
        None \<Rightarrow> Inl RenderError
      | Some d \<Rightarrow> Inr (Obs [Made ((fail_result x n)\<lparr>errorStr := Some d\<rparr>)] Completes))"
  by (simp add: executeJustCallback_def of_rx_def split: option.splits)

lemma ejc_Promise:
  "executeJustCallback x n (Some (ReturnPromise p)) =
     Inr (case p of
            Resolves v \<Rightarrow> Obs [Made (pass_result x n)] Completes
          | Rejects reason \<Rightarrow>
              (case printErrorDetails x n reason of
                 None \<Rightarrow> Obs [] Silent
               | Some d \<Rightarrow> Obs [Made ((fail_result x n)\<lparr>errorStr := Some d\<rparr>)] Completes)
          | Pending \<Rightarrow> Obs [] Silent)"
  by (simp add: executeJustCallback_def)

lemma ejc_Observable:
  "executeJustCallback x n (Some (ReturnObservable (Obs vs e))) =
     Inr (case e of
            Completes \<Rightarrow> Obs (map (coerce x n) vs) Completes
          | Silent \<Rightarrow> Obs (map (coerce x n) vs) Silent
          | Errors err \<Rightarrow>
              (case printErrorDetails x n err of
                 None \<Rightarrow> Obs (map (coerce x n) vs) (Errors RenderError)
               | Some d \<Rightarrow>
                   Obs (map (coerce x n) vs @ [Made ((fail_result x n)\<lparr>errorStr := Some d\<rparr>)])
                     Completes))"
  by (cases e)
     (auto simp: executeJustCallback_def map_rx_def catchError_def of_rx_def coerce_def
           Let_def split: option.splits)

lemmas ejc = ejc_None ejc_Plain ejc_Throw ejc_Promise ejc_Observable

text \<open>A callback that settles once gives one result; so does a hook that is not set.\<close>

lemma settles_once_sole: "settles_once cb \<Longrightarrow> \<exists>res. sole x n (Some cb) = Some res"
proof (cases cb)
  case (Throw e)
  assume "settles_once cb"
  with Throw obtain d where "printErrorDetails x n e = Some d"
    using renderable_prints[of e x n] by auto
  with Throw show ?thesis
    by (simp add: sole_def ejc)
next
  case (ReturnPromise p)
  assume s: "settles_once cb"
  show ?thesis
  proof (cases p)
    case (Resolves v)
    with ReturnPromise show ?thesis by (simp add: sole_def ejc)
  next
    case (Rejects reason)
    with s ReturnPromise obtain d where "printErrorDetails x n reason = Some d"
      using renderable_prints[of reason x n] by auto
    with Rejects ReturnPromise show ?thesis by (simp add: sole_def ejc)
  next
    case Pending
    with s ReturnPromise show ?thesis by simp
  qed
next
  case (ReturnObservable ob)
  assume s: "settles_once cb"
  obtain vs e where ob: "ob = Obs vs e" by (cases ob)
  show ?thesis
  proof (cases e)
    case Completes
    with s ReturnObservable ob obtain v where "vs = [v]" by (cases vs) auto
    with Completes ReturnObservable ob show ?thesis
      by (simp add: sole_def ejc)
  next
    case (Errors err)
    with s ReturnObservable ob have "vs = []" "renderable err" by auto
    then obtain d where "printErrorDetails x n err = Some d" using renderable_prints[of err x n] by blast
    with Errors ReturnObservable ob \<open>vs = []\<close> show ?thesis
      by (simp add: sole_def ejc)
  next
    case Silent
    with s ReturnObservable ob show ?thesis by simp
  qed
next
  case (ReturnPlain v)
  then show ?thesis by (simp add: sole_def ejc)
qed

lemma hook_settles_sole: "hook_settles fn \<Longrightarrow> \<exists>res. sole x n fn = Some res"
proof (cases fn)
  case None
  then show ?thesis by (simp add: sole_def ejc)
next
  case (Some cb)
  assume "hook_settles fn"
  with Some show ?thesis using settles_once_sole[of cb x n] by (simp add: hook_settles_def)
qed


lemma sole_executes:
  "sole x n fn = Some res \<Longrightarrow> executeJustCallback x n fn = Inr (Obs [res] Completes)"
  unfolding sole_def
  by (cases "executeJustCallback x n fn")
     (auto split: list.splits if_splits intro: obs.expand)

section \<open>Lemmas about the run\<close>

lemma exec_sole:
  "sole x n fn = Some res \<Longrightarrow>
   exec x ev n fn calls = (Obs [res] Completes, calls @ (if fn = None then [] else [ev]))"
  by (simp add: exec_def sole_executes)

lemma concatMap_from_completing:
  assumes "\<And>v c. v \<in> set vs \<Longrightarrow> project v c = (Obs (g v) Completes, c @ h v)"
  shows "concatMap_from project vs e calls
           = (Obs (concat (map g vs)) e, calls @ concat (map h vs))"
  using assms by (induction vs arbitrary: calls) simp_all

lemma set_Object_entries: "set (Object_entries kvs) = set kvs"
  by (auto simp: Object_entries_def)

lemma length_Object_entries: "length (Object_entries kvs) = length kvs"
  by (simp add: Object_entries_def sum_length_filter_compl)

lemma scan_list_Nil: "scan_list f acc vs = [] \<longleftrightarrow> vs = []"
  by (cases vs) simp_all

lemma scan_list_snoc:
  "vs \<noteq> [] \<Longrightarrow> last (scan_list (\<lambda>acc res. acc @ [res]) acc vs) = acc @ vs"
proof (induction vs arbitrary: acc)
  case Nil
  then show ?case by simp
next
  case (Cons v vs)
  show ?case
  proof (cases vs)
    case Nil
    then show ?thesis by simp
  next
    case (Cons w ws)
    with Cons.IH[of "acc @ [v]"] show ?thesis by simp
  qed
qed

text \<open>
  One test of a registry in which every callback settles once: one row, and the
  calls of \<open>beforeEach\<close>, of the test and of \<open>afterEach\<close>.
\<close>

lemma runTest_sole:
  assumes "sole x n (Some cb) = Some res" and "sole x ''afterEach'' (afterEachFn r) = Some a"
  shows "runTest x r (n, cb) calls =
           (Obs [\<lparr>testResult = res, timing = format_time (elapsed x n)\<rparr>] Completes,
            calls @ [TestCalled n] @ hook_call AfterEach (afterEachFn r))"
  using assms
  by (simp add: runTest_def concatMap_def exec_sole map_sub_def map_rx_def hook_call_def)

lemma test_step:
  assumes "settles_once (snd test)" and "hook_settles (beforeEachFn r)"
    and "hook_settles (afterEachFn r)"
  shows "concatMap (runTest x r)
           (map_sub (\<lambda>_. test) (exec x (HookCalled BeforeEach) ''beforeEach'' (beforeEachFn r))) calls
         = (Obs [row_of x test] Completes, calls @ test_calls r test)"
proof -
  obtain n cb where test: "test = (n, cb)" by (cases test)
  from assms(1) test obtain res where res: "sole x n (Some cb) = Some res"
    using settles_once_sole[of cb x n] by auto
  from assms(2) obtain b where b: "sole x ''beforeEach'' (beforeEachFn r) = Some b"
    using hook_settles_sole by blast
  from assms(3) obtain a where a: "sole x ''afterEach'' (afterEachFn r) = Some a"
    using hook_settles_sole by blast
  show ?thesis
    by (simp add: concatMap_def map_sub_def map_rx_def exec_sole[OF b] test
        runTest_sole[OF res a] row_of_def res test_calls_def hook_call_def)
qed

lemma executeTests_well_behaved:
  assumes "well_behaved r" and "tests r \<noteq> []"
  shows "executeTests x r calls =
           (Obs [map (row_of x) (Object_entries (tests r))] Completes,
            calls @ concat (map (test_calls r) (Object_entries (tests r))))"
proof -
  let ?es = "Object_entries (tests r)"
  have step: "\<And>test c. test \<in> set ?es \<Longrightarrow>
      concatMap (runTest x r)
        (map_sub (\<lambda>_. test) (exec x (HookCalled BeforeEach) ''beforeEach'' (beforeEachFn r))) c
      = (Obs [row_of x test] Completes, c @ test_calls r test)"
    using assms(1) by (intro test_step) (auto simp: well_behaved_def set_Object_entries list_all_iff)
  have ne: "?es \<noteq> []"
    using assms(2) length_Object_entries[of "tests r"] by (cases ?es) auto
  have "concatMap_from
          (\<lambda>test. concatMap (runTest x r)
             (map_sub (\<lambda>_. test) (exec x (HookCalled BeforeEach) ''beforeEach'' (beforeEachFn r))))
          ?es Completes calls
        = (Obs (concat (map (\<lambda>t. [row_of x t]) ?es)) Completes,
           calls @ concat (map (test_calls r) ?es))"
    by (rule concatMap_from_completing) (rule step)
  moreover have "concat (map (\<lambda>t. [row_of x t]) ?es) = map (row_of x) ?es"
    by (induction ?es) auto
  ultimately show ?thesis
    using ne
    by (simp add: executeTests_def concatMap_def of_sub_def of_rx_def scan_def last_rx_def
        scan_list_Nil scan_list_snoc)
qed

text \<open>
  The whole run of such a registry with at least one test: one summary, with a
  row for each test in the order of \<open>Object.entries\<close>, and no error.
\<close>

lemma run_registry_well_behaved:
  assumes "well_behaved r" and "tests r \<noteq> []"
  shows "run_registry x r =
           \<lparr>printed = [map (row_of x) (Object_entries (tests r))],
            outcome = Completes,
            called = hook_call BeforeAll (beforeAllFn r)
                     @ concat (map (test_calls r) (Object_entries (tests r)))
                     @ hook_call AfterAll (afterAllFn r)\<rparr>"
proof -
  from assms(1) obtain b where b: "sole x ''beforeAll'' (beforeAllFn r) = Some b"
    using hook_settles_sole unfolding well_behaved_def by blast
  from assms(1) obtain a where a: "sole x ''afterAll'' (afterAllFn r) = Some a"
    using hook_settles_sole unfolding well_behaved_def by blast
  show ?thesis
    by (simp add: run_registry_def concatMap_def exec_sole[OF b] exec_sole[OF a]
        executeTests_well_behaved[OF assms] map_sub_def map_rx_def hook_call_def)
qed

section \<open>The claims\<close>

subsection \<open>C8: the rendered error block\<close>

text \<open>
  Claim C8, amended. The block always starts with the red line \<open>"<name>" failed.\<close>
  After it comes: for a falsy error (\<open>null\<close>, \<open>undefined\<close>, the empty string, zero,
  \<open>false\<close>) the unknown-error line; for a native error its stack under the
  \<open>Details\<close> label when the stack is not empty, and nothing when it has none; for a
  string that is not empty the string; for any other object the could-not-parse
  label and the JSON text, whenever \<open>JSON.stringify\<close> returns; for every other
  value (a number, \<open>true\<close>, a function, a BigInt) the unknown-error line.
\<close>

theorem printErrorDetails_cases:
  "(\<not> isTruthy e \<longrightarrow>
      printErrorDetails x n e =
        Some (red x (failed_line n) @ [nl] @ red x ''An unknown error occured.''))
   \<and> (s \<noteq> [] \<longrightarrow>
        printErrorDetails x n (JError i (Some s)) =
          Some (red x (failed_line n) @ [nl] @ gray x ([nl] @ ''Details:'' @ [nl]) @ [nl] @ s))
   \<and> printErrorDetails x n (JError i None) = Some (red x (failed_line n))
   \<and> printErrorDetails x n (JError i (Some [])) = Some (red x (failed_line n))
   \<and> (s \<noteq> [] \<longrightarrow>
        printErrorDetails x n (JStr s) = Some (red x (failed_line n) @ [nl] @ red x s))
   \<and> (\<not> JSON_stringify_raises (JObject i ps) \<longrightarrow>
        printErrorDetails x n (JObject i ps) =
          Some (red x (failed_line n) @ [nl] @ gray x ''Could not parse error:'' @ [nl]
                @ json_text x (JObject i ps)))
   \<and> (isTruthy e \<and> typeof e \<noteq> TObject \<and> typeof e \<noteq> TString \<longrightarrow>
        printErrorDetails x n e =
          Some (red x (failed_line n) @ [nl] @ red x ''An unknown error occured.''))"
  by (cases e) (simp_all add: printErrorDetails_def stack_of_def string_of_def)

text \<open>The cases at \<open>null\<close>, an error with a stack, a string and an empty object.\<close>

theorem printErrorDetails_cases_witness:
  "printErrorDetails sample_ext ''t'' JNull =
     Some (failed_line ''t'' @ [nl] @ ''An unknown error occured.'')
   \<and> printErrorDetails sample_ext ''t'' (JError 1 (Some ''Error: boom'')) =
       Some (failed_line ''t'' @ [nl] @ [nl] @ ''Details:'' @ [nl] @ [nl] @ ''Error: boom'')
   \<and> printErrorDetails sample_ext ''t'' (JStr ''Error: boom'') =
       Some (failed_line ''t'' @ [nl] @ ''Error: boom'')
   \<and> printErrorDetails sample_ext ''t'' (JObject 1 []) =
       Some (failed_line ''t'' @ [nl] @ ''Could not parse error:'' @ [nl] @ ''{}'')
   \<and> printErrorDetails sample_ext ''t'' (JNum 3) =
       Some (failed_line ''t'' @ [nl] @ ''An unknown error occured.'')"
  using printErrorDetails_cases [of JNull sample_ext "''t''" "''Error: boom''" 1 "[]"]
    printErrorDetails_cases [of "JNum 3" sample_ext "''t''" "''Error: boom''" 1 "[]"]
  by (simp add: sample_ext_def JSON_stringify_raises_def)

text \<open>
  The claim as stated fails at a native error without a stack, where the block is
  the first line alone (no unknown-error line follows), and at the empty string,
  which is a string and gets the unknown-error line instead of itself.
\<close>

theorem printErrorDetails_counterexample:
  "printErrorDetails sample_ext ''t'' (JError 1 None) = Some (failed_line ''t'')
   \<and> printErrorDetails sample_ext ''t'' (JStr []) =
       Some (failed_line ''t'' @ [nl] @ ''An unknown error occured.'')"
  by (simp add: printErrorDetails_def stack_of_def sample_ext_def)

subsection \<open>C1: a callback that returns an observable\<close>

text \<open>
  What holds of the observable branch: values that are well-formed
  \<open>ExecResult\<close>s pass through unchanged, however the sequence ends, and an error
  that \<open>printErrorDetails\<close> renders gives one failing result after them. A value
  that is no \<open>ExecResult\<close> gives the failing result too.
\<close>

lemma observable_results:
  "list_all isExecResult vs \<Longrightarrow>
   executeJustCallback x n (Some (ReturnObservable (Obs vs e))) =
     Inr (case e of
            Completes \<Rightarrow> Obs (map Through vs) Completes
          | Silent \<Rightarrow> Obs (map Through vs) Silent
          | Errors err \<Rightarrow>
              (case printErrorDetails x n err of
                 None \<Rightarrow> Obs (map Through vs) (Errors RenderError)
               | Some d \<Rightarrow>
                   Obs (map Through vs
                        @ [Made \<lparr>name = n, passed = red x cross_mark, errorStr = Some d\<rparr>])
                     Completes))"
proof -
  assume "list_all isExecResult vs"
  then have "map (coerce x n) vs = map Through vs"
    by (simp add: coerce_def list_all_iff)
  then show ?thesis
    by (simp add: ejc_Observable fail_result_def split: ending.splits option.splits)
qed

lemma observable_other_value:
  "\<not> isExecResult v \<Longrightarrow>
   executeJustCallback x n (Some (ReturnObservable (Obs [v] Completes)))
     = Inr (Obs [Made \<lparr>name = n, passed = red x cross_mark, errorStr = None\<rparr>] Completes)"
  by (simp add: ejc_Observable coerce_def fail_result_def)

text \<open>
  Claim C1 at the failing inputs. The observable \<open>of(1)\<close> emits a value that is no
  \<open>ExecResult\<close> and completes: the result carries the red cross, not the green
  check mark the claim promises and the other branches give for a callback that
  ends without an error. The observable that completes at once gives no result
  at all.
\<close>

theorem observable_value_gives_failing_result:
  "executeJustCallback sample_ext ''t'' (Some (ReturnObservable (Obs [JNum 1] Completes)))
     = Inr (Obs [Made \<lparr>name = ''t'', passed = cross_mark, errorStr = None\<rparr>] Completes)
   \<and> green sample_ext check_mark \<noteq> cross_mark
   \<and> executeJustCallback sample_ext ''t'' (Some (ReturnObservable (Obs [] Completes)))
     = Inr (Obs [] Completes)"
  by (simp add: ejc_Observable coerce_def isExecResult_def fail_result_def sample_ext_def
      check_mark_def cross_mark_def)

subsection \<open>C5: the shape of an \<open>ExecResult\<close>\<close>

lemma ejc_Made:
  assumes "executeJustCallback x n callback = Inr ob" and "Made res \<in> set (emitted ob)"
  shows "res = pass_result x n \<or> res = fail_result x n
         \<or> (\<exists>d. res = (fail_result x n)\<lparr>errorStr := Some d\<rparr>)"
proof (cases callback)
  case None
  with assms show ?thesis by (auto simp: ejc_None)
next
  case (Some cb)
  show ?thesis
  proof (cases cb)
    case (Throw e)
    with Some assms show ?thesis by (auto simp: ejc_Throw split: option.splits)
  next
    case (ReturnPromise p)
    with Some assms show ?thesis
      by (auto simp: ejc_Promise split: option.splits settled.splits)
  next
    case (ReturnObservable src)
    obtain vs e where "src = Obs vs e" by (cases src)
    with ReturnObservable Some assms show ?thesis
      by (auto simp: ejc_Observable coerce_def split: option.splits ending.splits if_splits)
  next
    case (ReturnPlain v)
    with Some assms show ?thesis by (auto simp: ejc_Plain)
  qed
qed

text \<open>
  Claim C5, amended. Every \<open>ExecResult\<close> that \<open>executeJustCallback\<close> makes itself
  has the name it was called with, has for \<open>passed\<close> one of two coloured marks (a
  string: the green check mark or the red cross, not a boolean), and has
  \<open>errorStr\<close> set only when \<open>passed\<close> is not the green check mark. The values
  of a callback's observable that are let through are not covered: they are what
  the callback emitted.
\<close>

theorem made_result_shape:
  assumes "executeJustCallback x n callback = Inr ob" and "Made res \<in> set (emitted ob)"
    and "green x check_mark \<noteq> red x cross_mark"
  shows "name res = n
         \<and> (passed res = green x check_mark \<or> passed res = red x cross_mark)
         \<and> (errorStr res \<noteq> None \<longrightarrow> passed res \<noteq> green x check_mark)"
  using ejc_Made[OF assms(1,2)] assms(3)
  by (auto simp: pass_result_def fail_result_def)

text \<open>The result of a test that throws \<open>'boom'\<close>: failed, with the rendered block.\<close>

theorem made_result_shape_witness:
  "executeJustCallback sample_ext ''t'' (Some (Throw (JStr ''boom'')))
     = Inr (Obs [Made \<lparr>name = ''t'', passed = cross_mark,
                      errorStr = Some (failed_line ''t'' @ [nl] @ ''boom'')\<rparr>] Completes)
   \<and> green sample_ext check_mark \<noteq> red sample_ext cross_mark
   \<and> name \<lparr>name = ''t'', passed = cross_mark,
            errorStr = Some (failed_line ''t'' @ [nl] @ ''boom'')\<rparr> = ''t''
   \<and> passed \<lparr>name = ''t'', passed = cross_mark,
              errorStr = Some (failed_line ''t'' @ [nl] @ ''boom'')\<rparr>
       \<noteq> green sample_ext check_mark"
  using made_result_shape
    [of sample_ext "''t''" "Some (Throw (JStr ''boom''))"
        "Obs [Made \<lparr>name = ''t'', passed = cross_mark,
                     errorStr = Some (failed_line ''t'' @ [nl] @ ''boom'')\<rparr>] Completes"
        "\<lparr>name = ''t'', passed = cross_mark,
          errorStr = Some (failed_line ''t'' @ [nl] @ ''boom'')\<rparr>"]
  by (simp add: ejc_Throw printErrorDetails_def string_of_def sample_ext_def fail_result_def
      check_mark_def cross_mark_def)

text \<open>
  The claim as stated fails at a result that is let through: the observable of
  the callback emits an object with a name that is no string, the green check
  mark for \<open>passed\<close> and an \<open>errorStr\<close>, and that object is the result.
\<close>

theorem exec_result_shape_counterexample:
  "executeJustCallback sample_ext ''t''
     (Some (ReturnObservable
        (Obs [JObject 1 [(''name'', JNum 7), (''passed'', JStr check_mark),
                         (''errorStr'', JStr ''boom'')]] Completes)))
   = Inr (Obs [Through (JObject 1 [(''name'', JNum 7), (''passed'', JStr check_mark),
                                   (''errorStr'', JStr ''boom'')])] Completes)"
  by (simp add: ejc_Observable coerce_def isExecResult_def)

subsection \<open>C2: one row for each test\<close>

lemma Object_entries_no_index:
  "list_all (\<lambda>test. \<not> is_array_index (fst test)) kvs \<Longrightarrow> Object_entries kvs = kvs"
  by (simp add: Object_entries_def list_all_iff filter_id_conv)

lemma row_of_sole:
  "settles_once (snd test) \<Longrightarrow>
   executeJustCallback x (fst test) (Some (snd test))
     = Inr (Obs [testResult (row_of x test)] Completes)"
  using settles_once_sole[of "snd test" x "fst test"]
  by (auto simp: row_of_def dest: sole_executes)

text \<open>
  Claim C2, amended. For every suite whose \<open>testDef\<close> returns, that leaves at least
  one test in the registry and in which every hook and test settles once (\<open>settles_once\<close>): the subscriber
  receives one summary and no error; the summary has as many rows as the registry
  has tests; the rows are, in the order of \<open>Object.entries\<close>, the one
  \<open>ExecResult\<close> of each test with its time; and \<open>Object.entries\<close> is the order of
  registration when no test name is an array index.
\<close>

theorem summary_one_row_per_test:
  assumes "register_all r0 testDef = Inr r" and "well_behaved r" and "tests r \<noteq> []"
  shows "\<exists>rows. printed (describe x r0 testDef) = [rows]
           \<and> outcome (describe x r0 testDef) = Completes
           \<and> length rows = length (tests r)
           \<and> list_all2
                (\<lambda>test row.
                   executeJustCallback x (fst test) (Some (snd test))
                     = Inr (Obs [testResult row] Completes)
                   \<and> timing row = format_time (elapsed x (fst test)))
                (Object_entries (tests r)) rows
           \<and> (list_all (\<lambda>test. \<not> is_array_index (fst test)) (tests r)
                \<longrightarrow> Object_entries (tests r) = tests r)"
proof -
  let ?es = "Object_entries (tests r)"
  have run: "describe x r0 testDef =
      \<lparr>printed = [map (row_of x) ?es], outcome = Completes,
       called = hook_call BeforeAll (beforeAllFn r) @ concat (map (test_calls r) ?es)
                @ hook_call AfterAll (afterAllFn r)\<rparr>"
    using run_registry_well_behaved[OF assms(2,3)] assms(1) by (simp add: describe_def)
  have all: "\<forall>test \<in> set ?es. settles_once (snd test)"
    using assms(2) by (simp add: well_behaved_def list_all_iff set_Object_entries)
  have "list_all2
          (\<lambda>test row.
             executeJustCallback x (fst test) (Some (snd test))
               = Inr (Obs [testResult row] Completes)
             \<and> timing row = format_time (elapsed x (fst test)))
          ?es (map (row_of x) ?es)"
    unfolding list_all2_map2
  proof (rule list.rel_refl_strong)
    fix test assume "test \<in> set ?es"
    with all have "settles_once (snd test)" by blast
    then show "executeJustCallback x (fst test) (Some (snd test))
                 = Inr (Obs [testResult (row_of x test)] Completes)
               \<and> timing (row_of x test) = format_time (elapsed x (fst test))"
      by (simp add: row_of_sole) (simp add: row_of_def)
  qed
  with run show ?thesis
    by (simp add: length_Object_entries Object_entries_no_index)
qed

text \<open>The sample suite is such a suite, with four tests.\<close>

lemma sample_suite_registry: "register_all empty_registry sample_suite = Inr sample_registry"
  by (simp add: sample_suite_def sample_registry_def empty_registry_def it_def)

lemma sample_registry_well_behaved: "well_behaved sample_registry"
  by (simp add: sample_registry_def well_behaved_def hook_settles_def renderable_def)

theorem summary_one_row_per_test_witness:
  "register_all empty_registry sample_suite = Inr sample_registry
   \<and> (\<exists>rows. printed (describe sample_ext empty_registry sample_suite) = [rows]
          \<and> outcome (describe sample_ext empty_registry sample_suite) = Completes
          \<and> length rows = 4)
   \<and> Object_entries (tests sample_registry) = tests sample_registry"
proof -
  have ne: "tests sample_registry \<noteq> []"
    by (simp add: sample_registry_def)
  have len: "length (tests sample_registry) = 4"
    by (simp add: sample_registry_def)
  have names: "list_all (\<lambda>test. \<not> is_array_index (fst test)) (tests sample_registry)"
    by (simp add: sample_registry_def is_array_index_def is_digit_def)
  show ?thesis
    using summary_one_row_per_test
      [OF sample_suite_registry sample_registry_well_behaved ne, of sample_ext]
      len names sample_suite_registry
    by auto
qed

text \<open>
  The claim as stated fails at a suite with one test whose observable emits two
  values: the summary has two rows. It fails too at the tests \<open>'10'\<close> and
  \<open>'9'\<close>, registered in that order: the summary has \<open>'9'\<close> first.
\<close>

theorem summary_size_counterexample:
  "map length (printed (describe sample_ext empty_registry
      [It ''a'' (ReturnObservable (Obs [JNum 1, JNum 2] Completes))])) = [2]
   \<and> map testResult
        (concat (printed (describe sample_ext empty_registry
           [It ''10'' (ReturnPlain JUndefined), It ''9'' (Throw (JStr ''boom''))])))
      = [Made \<lparr>name = ''9'', passed = cross_mark,
                errorStr = Some (failed_line ''9'' @ [nl] @ ''boom'')\<rparr>,
         Made \<lparr>name = ''10'', passed = check_mark, errorStr = None\<rparr>]"
  by (simp add: describe_def run_registry_def executeTests_def concatMap_def exec_def
      ejc map_sub_def map_rx_def of_sub_def of_rx_def runTest_def empty_registry_def it_def
      Function_readonly_keys_def Object_entries_def is_array_index_def is_digit_def index_value_def digit_value_def
      scan_def last_rx_def coerce_def printErrorDetails_def string_of_def sample_ext_def
      pass_result_def fail_result_def)

text \<open>
  A suite whose \<open>testDef\<close> raises: after \<open>it('__proto__', f)\<close> the name \<open>name\<close>
  cannot be assigned, and \<open>describe\<close> runs nothing.
\<close>

lemma proto_then_name_raises:
  "describe x empty_registry [It ''__proto__'' f, It ''name'' g]
     = \<lparr>printed = [], outcome = Errors AssignError, called = []\<rparr>"
  by (simp add: describe_def it_def empty_registry_def Function_readonly_keys_def)

subsection \<open>C3: how often the hooks are called\<close>

lemma count_hook_call:
  "count_list (hook_call h fn) ev = (if fn \<noteq> None \<and> ev = HookCalled h then 1 else 0)"
  by (simp add: hook_call_def)

lemma count_test_calls:
  "count_list (concat (map (test_calls r) es)) (HookCalled h) =
     (if h = BeforeEach \<and> beforeEachFn r \<noteq> None then length es else 0)
     + (if h = AfterEach \<and> afterEachFn r \<noteq> None then length es else 0)"
  by (induction es) (auto simp: test_calls_def count_hook_call)

text \<open>
  What holds: for a suite that leaves at least one test in the registry and in
  which every hook and test settles once, a registered \<open>beforeEach\<close> and a
  registered \<open>afterEach\<close> are each called once for each test of the registry, and
  a registered \<open>beforeAll\<close> and a registered \<open>afterAll\<close> once each.
\<close>

lemma hook_counts:
  assumes "register_all r0 testDef = Inr r" and "well_behaved r" and "tests r \<noteq> []"
  shows "count_list (called (describe x r0 testDef)) (HookCalled BeforeEach)
           = (if beforeEachFn r = None then 0 else length (tests r))
         \<and> count_list (called (describe x r0 testDef)) (HookCalled AfterEach)
           = (if afterEachFn r = None then 0 else length (tests r))
         \<and> count_list (called (describe x r0 testDef)) (HookCalled BeforeAll)
           = (if beforeAllFn r = None then 0 else 1)
         \<and> count_list (called (describe x r0 testDef)) (HookCalled AfterAll)
           = (if afterAllFn r = None then 0 else 1)"
  using run_registry_well_behaved[OF assms(2,3), of x] assms(1)
  by (simp add: describe_def count_test_calls count_hook_call length_Object_entries)

text \<open>
  A \<open>beforeEach\<close> whose observable emits two values: the test runs twice, and
  \<open>afterEach\<close> with it.
\<close>

lemma hook_observable_twice:
  "count_list
     (called (describe sample_ext empty_registry
        [It ''a'' (ReturnPlain JUndefined),
         Hook BeforeEach (ReturnObservable (Obs [JNum 1, JNum 2] Completes)),
         Hook AfterEach (ReturnPlain JUndefined)]))
     (HookCalled AfterEach) = 2"
  by (simp add: describe_def run_registry_def executeTests_def concatMap_def exec_def
      ejc map_sub_def map_rx_def of_sub_def of_rx_def runTest_def empty_registry_def it_def
      Function_readonly_keys_def
      Object_entries_def is_array_index_def is_digit_def scan_def last_rx_def coerce_def)

text \<open>
  The suite without a test: \<open>last()\<close> raises its \<open>EmptyError\<close>, no summary is
  printed and \<open>afterAll\<close> is not called.
\<close>

lemma empty_suite_run:
  assumes "tests r = []" and "hook_settles (beforeAllFn r)"
  shows "run_registry x r =
           \<lparr>printed = [], outcome = Errors EmptyError,
            called = hook_call BeforeAll (beforeAllFn r)\<rparr>"
proof -
  from assms(2) obtain b where b: "sole x ''beforeAll'' (beforeAllFn r) = Some b"
    using hook_settles_sole by blast
  have "executeTests x r calls = (Obs [] (Errors EmptyError), calls)" for calls
    using assms(1)
    by (simp add: executeTests_def concatMap_def of_sub_def of_rx_def Object_entries_def
        scan_def last_rx_def)
  then show ?thesis
    by (simp add: run_registry_def concatMap_def exec_sole[OF b] hook_call_def)
qed

text \<open>
  Claim C3 at the failing input: a suite that registers \<open>beforeAll\<close> and
  \<open>afterAll\<close> and no test (N = 0). \<open>beforeAll\<close> is called, the chain ends in the
  \<open>EmptyError\<close> of \<open>last()\<close>, and \<open>afterAll\<close> is never called, where the claim says
  once.
\<close>

theorem empty_suite_skips_afterAll:
  "describe sample_ext empty_registry
     [Hook BeforeAll (ReturnPlain JUndefined), Hook AfterAll (ReturnPlain JUndefined)]
   = \<lparr>printed = [], outcome = Errors EmptyError, called = [HookCalled BeforeAll]\<rparr>"
  by (simp add: describe_def empty_registry_def empty_suite_run hook_settles_def hook_call_def)

subsection \<open>C4: a callback that throws\<close>

text \<open>
  A thrown value that \<open>printErrorDetails\<close> renders gives one failing result with
  the rendered block, which is not empty; \<open>run_registry_well_behaved\<close> is the run
  that goes on after it. A thrown value that it does not render makes
  \<open>executeJustCallback\<close> raise.
\<close>

lemma throw_results:
  "printErrorDetails x n e = Some d \<Longrightarrow>
   executeJustCallback x n (Some (Throw e))
     = Inr (Obs [Made \<lparr>name = n, passed = red x cross_mark, errorStr = Some d\<rparr>] Completes)"
  by (simp add: ejc_Throw fail_result_def)

lemma printErrorDetails_not_empty:
  assumes "red x (failed_line n) \<noteq> []" and "printErrorDetails x n e = Some d"
  shows "d \<noteq> []"
  using assms
  by (auto simp: printErrorDetails_def Let_def split: if_splits option.splits)

lemma throw_unrenderable_raises:
  "\<not> renderable e \<Longrightarrow> executeJustCallback x n (Some (Throw e)) = Inl RenderError"
  using renderable_prints prints_renderable
  by (cases "printErrorDetails x n e") (auto simp: ejc_Throw)

text \<open>
  Claim C4 at the failing input: the first test throws \<open>{ n: 1n }\<close>, an object
  with a BigInt. \<open>JSON.stringify\<close> raises inside \<open>printErrorDetails\<close>, inside the
  \<open>catch\<close> block; the error ends the run, the second test is not called and no
  summary is printed.
\<close>

theorem throw_unrenderable_aborts_run:
  "describe sample_ext empty_registry
     [It ''a'' (Throw (JObject 1 [(''n'', JBigInt 1)])), It ''b'' (ReturnPlain JUndefined)]
   = \<lparr>printed = [], outcome = Errors RenderError, called = [TestCalled ''a'']\<rparr>"
  by (simp add: describe_def run_registry_def executeTests_def concatMap_def exec_def
      ejc map_sub_def map_rx_def of_sub_def of_rx_def runTest_def empty_registry_def it_def
      Function_readonly_keys_def Object_entries_def is_array_index_def is_digit_def scan_def last_rx_def
      printErrorDetails_def JSON_stringify_raises_def)

subsection \<open>C7: a callback that returns a promise\<close>

text \<open>
  A promise that resolves gives the passing result; a rejection with a reason that
  \<open>printErrorDetails\<close> renders gives the failing result with the rendered block.
\<close>

lemma promise_results:
  "executeJustCallback x n (Some (ReturnPromise (Resolves v)))
     = Inr (Obs [Made \<lparr>name = n, passed = green x check_mark, errorStr = None\<rparr>] Completes)
   \<and> (printErrorDetails x n reason = Some d \<longrightarrow>
        executeJustCallback x n (Some (ReturnPromise (Rejects reason)))
          = Inr (Obs [Made \<lparr>name = n, passed = red x cross_mark, errorStr = Some d\<rparr>]
                   Completes))"
  by (simp add: ejc_Promise pass_result_def fail_result_def)

lemma rejected_unrenderable_silent:
  "\<not> renderable reason \<Longrightarrow>
   executeJustCallback x n (Some (ReturnPromise (Rejects reason))) = Inr (Obs [] Silent)"
  using prints_renderable
  by (cases "printErrorDetails x n reason") (auto simp: ejc_Promise)

text \<open>
  Claim C7 at the failing input: the promise rejects with \<open>{ n: 1n }\<close>.
  \<open>printErrorDetails\<close> raises inside the rejection handler, the subscriber is
  never called, and the test gives no result at all.
\<close>

theorem rejected_unrenderable_gives_no_result:
  "executeJustCallback sample_ext ''t''
     (Some (ReturnPromise (Rejects (JObject 1 [(''n'', JBigInt 1)]))))
   = Inr (Obs [] Silent)"
  by (simp add: ejc_Promise printErrorDetails_def JSON_stringify_raises_def)

subsection \<open>C6: the time of a test\<close>

text \<open>
  What holds: zero gives \<open>0.000\<close>, a text without a fraction gets \<open>.000\<close>, and a
  fraction is cut after three digits; nothing pads a fraction of one or two.
\<close>

lemma format_time_zero: "format_time None = ''0.000''"
  by (simp add: format_time_def)

lemma format_time_whole:
  "CHR ''.'' \<notin> set s \<Longrightarrow> format_time (Some s) = s @ ''.000''"
  by (simp add: format_time_def Let_def takeWhile_eq_all_conv dropWhile_eq_Nil_conv)

lemma format_time_fraction:
  assumes "CHR ''.'' \<notin> set w" and "CHR ''.'' \<notin> set d"
  shows "format_time (Some (w @ ''.'' @ d)) = w @ ''.'' @ take 3 d"
proof -
  have w: "takeWhile (\<lambda>c. c \<noteq> CHR ''.'') (w @ CHR ''.'' # d) = w"
    using assms(1) by (induction w) auto
  have r: "dropWhile (\<lambda>c. c \<noteq> CHR ''.'') (w @ CHR ''.'' # d) = CHR ''.'' # d"
    using assms(1) by (induction w) auto
  have d: "takeWhile (\<lambda>c. c \<noteq> CHR ''.'') d = d"
    using assms(2) by (auto simp: takeWhile_eq_all_conv)
  show ?thesis
    by (simp add: format_time_def Let_def w r d)
qed

text \<open>
  Claim C6 at the failing input: a test whose two readings of the clock are half
  a second apart, such as 12:00:00.000 and 12:00:00.500. \<open>_timing\<close> is \<open>0.5\<close>
  (the doubles are exact there), its text is \<open>0.5\<close>, and the time is \<open>0.5\<close>,
  with one decimal digit where the claim says three.
\<close>

theorem format_time_half_second: "format_time (Some ''0.5'') = ''0.5''"
  by (simp add: format_time_def)

subsection \<open>C9: \<open>toThrow\<close>\<close>

text \<open>
  Claim C9. For every value of type \<open>function\<close>, \<open>toThrow\<close> returns \<open>true\<close>,
  whether the call of the function raises or returns: the error raised after a
  call that returns is caught by the matcher's own \<open>catch\<close>. \<open>toThrow\<close> throws
  only for a value that is not a function. (The call is one that returns or
  raises; a call that does not end is not a value of \<open>call\<close>.)
\<close>

theorem toThrow_function:
  "(typeof expected = TFunction \<longrightarrow> toThrow x expected = Inr True)
   \<and> (typeof expected \<noteq> TFunction \<longrightarrow>
        toThrow x expected =
          Inl (NewError (''Expected a function, received ''
                          @ blue x (typeof_text (typeof expected)) @ ''.'')))"
  by (cases expected)
     (auto simp: toThrow_def try_catch_def apply_fn_def split: call.splits sum.splits)

text \<open>A function that returns, a function that raises, and a number.\<close>

theorem toThrow_function_witness:
  "toThrow sample_ext (JFunction 1 (Returns JUndefined)) = Inr True
   \<and> toThrow sample_ext (JFunction 2 (Raises (JStr ''boom''))) = Inr True
   \<and> toThrow sample_ext (JNum 3) = Inl (NewError ''Expected a function, received number.'')"
  using toThrow_function [of "JFunction 1 (Returns JUndefined)" sample_ext]
    toThrow_function [of "JFunction 2 (Raises (JStr ''boom''))" sample_ext]
    toThrow_function [of "JNum 3" sample_ext]
  by (simp add: typeof_text_def sample_ext_def)

subsection \<open>C10: \<open>toEqual\<close>\<close>

text \<open>
  Claim C10. \<open>expect(expected).toEqual(received)\<close> returns \<open>true\<close> exactly when
  \<open>expected === received\<close>; in every other case it throws, and so it does for
  two distinct objects with the same properties.
\<close>

theorem toEqual_strict:
  "(toEqual x expected received = Inr True \<longleftrightarrow> strict_eq expected received)
   \<and> (\<not> strict_eq expected received \<longrightarrow> (\<exists>t. toEqual x expected received = Inl t))
   \<and> (i \<noteq> j \<longrightarrow> (\<exists>t. toEqual x (JObject i ps) (JObject j ps) = Inl t))"
  by (auto simp: toEqual_def split: option.splits)

text \<open>Equal strings, a string and a number, and two objects with the same property.\<close>

theorem toEqual_strict_witness:
  "toEqual sample_ext (JStr ''a'') (JStr ''a'') = Inr True
   \<and> (\<exists>t. toEqual sample_ext (JStr ''a'') (JNum 1) = Inl t)
   \<and> (\<exists>t. toEqual sample_ext (JObject 1 [(''k'', JNum 1)]) (JObject 2 [(''k'', JNum 1)]) = Inl t)"
  using toEqual_strict [of sample_ext "JStr ''a''" "JStr ''a''" 1 2 "[(''k'', JNum 1)]"]
    toEqual_strict [of sample_ext "JStr ''a''" "JNum 1" 1 2 "[(''k'', JNum 1)]"]
  by simp

end
